theory Spec2Isabelle
  imports Complex_Main "HOL-Library.AList"
begin

section \<open>Values shared by the pipeline stages\<close>

text \<open>
  The stages exchange Python dictionaries that are serialised as JSON. A JSON value is
  modelled by the datatype below; a Python \<open>int\<close> is \<open>JInt\<close>, a \<open>float\<close> is \<open>JNum\<close>
  and is read as a real number (the claims are about thresholds and fixed constants, not
  about rounding), a string is its UTF-8 text, and an object is an association list whose
  keys are looked up with \<open>map_of\<close>.
\<close>

datatype json =
    JNull
  | JBool bool
  | JInt int
  | JNum real
  | JStr string
  | JArr "json list"
  | JObj "(string \<times> json) list"

text \<open>A raised exception: its class and its text \<open>str(e)\<close>.\<close>

datatype exn = Raised (exn_class: string) (exn_text: string)

text \<open>
  A hypothesis dictionary. The Decider and the Memory read its keys with
  \<open>h.get(key, default)\<close>, so a key may be absent: \<open>None\<close> is the absent key.
\<close>

record hypothesis =
  h_cause :: "json option"
  h_explanation :: "json option"
  h_confidence :: "real option"

record reasoning =
  reasoning_mode :: string
  hypotheses :: "hypothesis list"
  assumptions :: "json list"
  unknowns :: "json list"
  r_confidence :: real
  r_error :: "string option"

section \<open>Decider (agent/decide.py)\<close>

record decision =
  d_type :: string
  d_reason :: string
  requires_human_approval :: bool
  severity :: "string option"

record trace =
  observation_confidence :: real
  reasoning_confidence :: real

record decision_output =
  do_observation_id :: nat
  decisions :: "decision list"
  risk_level :: string
  do_trace :: trace

text \<open>
  The Decider reads only \<open>observation["observation_id"]\<close> and
  \<open>observation["confidence"]\<close>; it is defined over any record that has these two
  fields, and the Observer's observation record below extends this one.
\<close>

record observation_head =
  observation_id :: nat
  o_confidence :: real

text \<open>
  \<open>max(hypotheses, key=lambda h: h.get("confidence", 0))\<close>: Python's \<open>max\<close> walks the
  list from the left and replaces the current best only by a strictly greater key.
\<close>

definition conf_key :: "hypothesis \<Rightarrow> real" where
  "conf_key h = (case h_confidence h of None \<Rightarrow> 0 | Some c \<Rightarrow> c)"

fun max_from :: "('a \<Rightarrow> real) \<Rightarrow> 'a \<Rightarrow> 'a list \<Rightarrow> 'a" where
  "max_from key best [] = best"
| "max_from key best (x # xs) = max_from key (if key best < key x then x else best) xs"

definition py_max :: "('a \<Rightarrow> real) \<Rightarrow> 'a list \<Rightarrow> 'a" where
  "py_max key xs = max_from key (hd xs) (tl xs)"

definition unknown_hypothesis :: hypothesis where
  "unknown_hypothesis =
     \<lparr>h_cause = Some (JStr ''unknown''), h_explanation = None, h_confidence = Some 0\<rparr>"

definition get_top_hypothesis :: "hypothesis list \<Rightarrow> hypothesis" where
  "get_top_hypothesis hs = (if hs = [] then unknown_hypothesis else py_max conf_key hs)"

definition assess_risk :: "decision list \<Rightarrow> string" where
  "assess_risk ds =
     (if list_ex (\<lambda>d. d_type d = ''escalate_engineering'') ds then ''high''
      else if list_ex requires_human_approval ds then ''medium''
      else ''low'')"

definition monitor_only :: "string \<Rightarrow> decision" where
  "monitor_only rsn =
     \<lparr>d_type = ''monitor_only'', d_reason = rsn, requires_human_approval = False,
      severity = None\<rparr>"

definition support_guidance :: "string \<Rightarrow> bool \<Rightarrow> decision" where
  "support_guidance rsn appr =
     \<lparr>d_type = ''support_guidance'', d_reason = rsn, requires_human_approval = appr,
      severity = None\<rparr>"

definition escalate_engineering :: "string \<Rightarrow> string \<Rightarrow> bool \<Rightarrow> decision" where
  "escalate_engineering sev rsn appr =
     \<lparr>d_type = ''escalate_engineering'', d_reason = rsn, requires_human_approval = appr,
      severity = Some sev\<rparr>"

definition documentation_update :: "string \<Rightarrow> decision" where
  "documentation_update rsn =
     \<lparr>d_type = ''documentation_update_suggestion'', d_reason = rsn,
      requires_human_approval = True, severity = None\<rparr>"

definition finalize ::
  "decision list \<Rightarrow> 'a observation_head_scheme \<Rightarrow> reasoning \<Rightarrow> decision_output" where
  "finalize ds obs r =
     \<lparr>do_observation_id = observation_id obs,
      decisions = ds,
      risk_level = assess_risk ds,
      do_trace = \<lparr>observation_confidence = o_confidence obs,
                  reasoning_confidence = r_confidence r\<rparr>\<rparr>"

definition block ::
  "string \<Rightarrow> 'a observation_head_scheme \<Rightarrow> reasoning \<Rightarrow> decision_output" where
  "block rsn obs r =
     \<lparr>do_observation_id = observation_id obs,
      decisions = [\<lparr>d_type = ''block_auto_actions'', d_reason = rsn,
                    requires_human_approval = True, severity = None\<rparr>],
      risk_level = ''high'',
      do_trace = \<lparr>observation_confidence = o_confidence obs,
                  reasoning_confidence = r_confidence r\<rparr>\<rparr>"

text \<open>The \<open>if\<close>/\<open>elif\<close> chain of \<open>Decider.decide\<close> that fills \<open>decisions\<close>.\<close>

definition policy_by_cause :: "json \<Rightarrow> decision list" where
  "policy_by_cause c =
     (if c = JStr ''platform_regression'' then
        [escalate_engineering ''high'' ''Suspected platform regression across services'' False]
      else if c = JStr ''webhook_auth_failure'' then
        [support_guidance ''Webhook authentication failures detected'' False]
      else if c = JStr ''frontend_backend_mismatch'' then
        [documentation_update ''Frontend and backend state mismatch observed'',
         monitor_only ''Mismatch may resolve after configuration sync'']
      else if c = JStr ''migration_misconfiguration'' then
        [support_guidance ''Likely merchant-side migration misconfiguration'' False]
      else if c = JStr ''normal_operation'' then
        [monitor_only ''System operating normally'']
      else
        [monitor_only ''Root cause unclear, monitoring for changes''])"

definition decide :: "'a observation_head_scheme \<Rightarrow> reasoning \<Rightarrow> decision_output" where
  "decide obs r =
     (let top_hypothesis = get_top_hypothesis (hypotheses r);
          c = (case h_cause top_hypothesis of None \<Rightarrow> JStr ''unknown'' | Some v \<Rightarrow> v)
      in if o_confidence obs < 0.6 then block ''Low observation confidence'' obs r
         else finalize (policy_by_cause c) obs r)"





text \<open>Sample inputs of the Decider: a confident observation and a reasoning with a tie.\<close>

definition sample_head :: observation_head where
  "sample_head = \<lparr>observation_id = 7, o_confidence = 0.9\<rparr>"

definition tied_reasoning :: reasoning where
  "tied_reasoning =
     \<lparr>reasoning_mode = ''llm'',
      hypotheses =
        [\<lparr>h_cause = Some (JStr ''webhook_auth_failure''), h_explanation = Some (JStr []),
          h_confidence = Some 0.5\<rparr>,
         \<lparr>h_cause = Some (JStr ''platform_regression''), h_explanation = Some (JStr []),
          h_confidence = Some 0.7\<rparr>,
         \<lparr>h_cause = Some (JStr ''normal_operation''), h_explanation = Some (JStr []),
          h_confidence = Some 0.7\<rparr>],
      assumptions = [], unknowns = [], r_confidence = 0.7, r_error = None\<rparr>"

section \<open>Observer (agent/observe.py)\<close>

text \<open>
  The Observer reads one key of each error, checkout and migration record, always with
  \<open>record.get(key)\<close>: the key may be absent, and when present it holds a string tag.
  Tickets and webhook results are only counted.
\<close>

record error_signal =
  e_type :: "string option"

record checkout_signal =
  c_status :: "string option"

record migration_signal =
  m_stage :: "string option"

text \<open>A raw batch: each of the five buckets may be absent.\<close>

record raw_signals =
  raw_tickets :: "json list option"
  raw_errors :: "error_signal list option"
  raw_checkouts :: "checkout_signal list option"
  raw_webhooks :: "json list option"
  raw_migration_states :: "migration_signal list option"

record signals =
  tickets :: "json list"
  errors :: "error_signal list"
  checkouts :: "checkout_signal list"
  webhooks :: "json list"
  migration_states :: "migration_signal list"

record stats =
  ticket_count :: nat
  error_count :: nat
  failed_checkouts :: nat
  error_types :: "(string \<times> nat) list"
  migration_stage_distribution :: "(string \<times> nat) list"

record anomaly =
  a_type :: string
  a_error_type :: "string option"
  a_count :: nat
  a_severity :: string

record observation = observation_head +
  o_timestamp :: real
  o_signals :: signals
  o_stats :: stats
  anomalies :: "anomaly list"

definition get_or :: "'a \<Rightarrow> 'a option \<Rightarrow> 'a" where
  "get_or d v = (case v of None \<Rightarrow> d | Some x \<Rightarrow> x)"

definition ingest_signals :: "raw_signals \<Rightarrow> signals" where
  "ingest_signals raw =
     \<lparr>tickets = get_or [] (raw_tickets raw),
      errors = get_or [] (raw_errors raw),
      checkouts = get_or [] (raw_checkouts raw),
      webhooks = get_or [] (raw_webhooks raw),
      migration_states = get_or [] (raw_migration_states raw)\<rparr>"

text \<open>
  \<open>counts[key] += 1\<close> on a \<open>defaultdict(int)\<close>: a present key is incremented in
  place, a new key is appended with count 1 (a dictionary keeps insertion order).
\<close>

fun incr :: "string \<Rightarrow> (string \<times> nat) list \<Rightarrow> (string \<times> nat) list" where
  "incr k [] = [(k, 1)]"
| "incr k ((k', n) # rest) = (if k' = k then (k', n + 1) # rest else (k', n) # incr k rest)"

definition histogram :: "string list \<Rightarrow> (string \<times> nat) list" where
  "histogram ks = foldl (\<lambda>d k. incr k d) [] ks"

definition compute_stats :: "signals \<Rightarrow> stats" where
  "compute_stats sg =
     \<lparr>ticket_count = length (tickets sg),
      error_count = length (errors sg),
      failed_checkouts = length (filter (\<lambda>c. c_status c = Some ''failed'') (checkouts sg)),
      error_types = histogram (map (\<lambda>e. get_or ''unknown'' (e_type e)) (errors sg)),
      migration_stage_distribution =
        histogram (map (\<lambda>m. get_or ''unknown'' (m_stage m)) (migration_states sg))\<rparr>"

definition checkout_failures :: "nat \<Rightarrow> anomaly" where
  "checkout_failures n =
     \<lparr>a_type = ''checkout_failures'', a_error_type = None, a_count = n,
      a_severity = ''high''\<rparr>"

definition repeated_error :: "string \<Rightarrow> nat \<Rightarrow> anomaly" where
  "repeated_error t n =
     \<lparr>a_type = ''repeated_error'', a_error_type = Some t, a_count = n,
      a_severity = ''medium''\<rparr>"

fun repeated_errors :: "(string \<times> nat) list \<Rightarrow> anomaly list" where
  "repeated_errors [] = []"
| "repeated_errors ((t, n) # rest) =
     (if 5 \<le> n then repeated_error t n # repeated_errors rest else repeated_errors rest)"

definition detect_anomalies :: "signals \<Rightarrow> stats \<Rightarrow> anomaly list" where
  "detect_anomalies sg st =
     (if 0 < failed_checkouts st then [checkout_failures (failed_checkouts st)] else [])
     @ repeated_errors (error_types st)"

text \<open>
  \<open>_estimate_confidence\<close> walks the five buckets and counts the empty ones.
\<close>

definition missing_sources :: "signals \<Rightarrow> nat" where
  "missing_sources sg =
     foldl (\<lambda>m empty. if empty then m + 1 else m) 0
       [tickets sg = [], errors sg = [], checkouts sg = [], webhooks sg = [],
        migration_states sg = []]"

definition estimate_confidence :: "signals \<Rightarrow> real" where
  "estimate_confidence sg = max (1.0 - real (missing_sources sg) * 0.1) 0.5"

text \<open>
  \<open>observe\<close> takes the Observer's counter and the clock reading, and returns the
  observation together with the new counter.
\<close>

definition observe :: "nat \<Rightarrow> real \<Rightarrow> raw_signals \<Rightarrow> observation \<times> nat" where
  "observe counter now raw =
     (let new_id = counter + 1;
          sg = ingest_signals raw;
          st = compute_stats sg
      in (\<lparr>observation_id = new_id,
           o_confidence = estimate_confidence sg,
           o_timestamp = now,
           o_signals = sg,
           o_stats = st,
           anomalies = detect_anomalies sg st\<rparr>, new_id))"

text \<open>
  What the specification counts: the empty buckets of a batch, the failed checkouts, and
  the occurrences of an error type (an error without a type counts as \<open>unknown\<close>).
\<close>

definition bucket_is_empty :: "'a list option \<Rightarrow> bool" where
  "bucket_is_empty b = (case b of None \<Rightarrow> True | Some xs \<Rightarrow> xs = [])"

definition number_of_empty_buckets :: "raw_signals \<Rightarrow> nat" where
  "number_of_empty_buckets raw =
     (if bucket_is_empty (raw_tickets raw) then 1 else 0)
     + (if bucket_is_empty (raw_errors raw) then 1 else 0)
     + (if bucket_is_empty (raw_checkouts raw) then 1 else 0)
     + (if bucket_is_empty (raw_webhooks raw) then 1 else 0)
     + (if bucket_is_empty (raw_migration_states raw) then 1 else 0)"

definition failed_count :: "raw_signals \<Rightarrow> nat" where
  "failed_count raw =
     (case raw_checkouts raw of
        None \<Rightarrow> 0
      | Some cs \<Rightarrow> count_list (map c_status cs) (Some ''failed''))"

definition error_type_count :: "raw_signals \<Rightarrow> string \<Rightarrow> nat" where
  "error_type_count raw t =
     (case raw_errors raw of
        None \<Rightarrow> 0
      | Some es \<Rightarrow>
          count_list
            (map (\<lambda>e. case e_type e of None \<Rightarrow> ''unknown'' | Some s \<Rightarrow> s) es) t)"

text \<open>Scenario A of the driver: 8 failed checkouts, 10 timeouts, 25 tickets, no webhooks.\<close>

definition scenario_checkout_failure :: raw_signals where
  "scenario_checkout_failure =
     \<lparr>raw_tickets = Some (map (\<lambda>i. JObj [(''id'', JInt (int i))]) [0 ..< 25]),
      raw_errors = Some (replicate 10 \<lparr>e_type = Some ''checkout_timeout''\<rparr>),
      raw_checkouts = Some (replicate 8 \<lparr>c_status = Some ''failed''\<rparr>),
      raw_webhooks = Some [],
      raw_migration_states = Some [\<lparr>m_stage = Some ''post-cutover''\<rparr>]\<rparr>"

section \<open>Reasoner (agent/reason.py)\<close>

definition mk_hypothesis :: "string \<Rightarrow> string \<Rightarrow> real \<Rightarrow> hypothesis" where
  "mk_hypothesis c e k =
     \<lparr>h_cause = Some (JStr c), h_explanation = Some (JStr e), h_confidence = Some k\<rparr>"

text \<open>\<open>error_types.get(key, 0)\<close>.\<close>

definition count_of :: "(string \<times> nat) list \<Rightarrow> string \<Rightarrow> nat" where
  "count_of d k = get_or 0 (map_of d k)"

definition reason_deterministic :: "'a observation_scheme \<Rightarrow> reasoning" where
  "reason_deterministic obs =
     (let st = o_stats obs;
          et = error_types st;
          hs = (if 5 \<le> failed_checkouts st then
                  [mk_hypothesis ''migration_misconfiguration''
                     ''High number of checkout failures detected after migration'' 0.8]
                else [])
             @ (if 3 \<le> count_of et ''webhook_401'' then
                  [mk_hypothesis ''webhook_auth_failure''
                     ''Repeated webhook authentication failures detected'' 0.7]
                else [])
             @ (if 3 \<le> count_of et ''frontend_state_mismatch'' then
                  [mk_hypothesis ''frontend_backend_mismatch''
                     ''Frontend and backend states are inconsistent'' 0.65]
                else [])
             @ (if 10 \<le> count_of et ''unknown'' then
                  [mk_hypothesis ''platform_regression''
                     ''High volume of unknown errors suggests a platform regression'' 0.6]
                else []);
          hs' = (if hs = [] then
                   [mk_hypothesis ''normal_operation''
                      ''System signals are within expected parameters'' 0.9]
                 else hs)
      in \<lparr>reasoning_mode = ''deterministic'',
          hypotheses = hs',
          assumptions = [JStr ''Observed signals accurately reflect system behavior''],
          unknowns = [JStr ''Merchant-specific configurations not visible''],
          r_confidence = py_max id (map conf_key hs'),
          r_error = None\<rparr>)"

text \<open>
  The threshold rules as the specification lists them: the counter a rule reads
  (\<open>None\<close> for \<open>failed_checkouts\<close>, \<open>Some t\<close> for the count of error type \<open>t\<close>), its
  threshold, and the cause and confidence of the hypothesis it contributes.
\<close>

definition threshold_rules :: "(string option \<times> nat \<times> string \<times> real) list" where
  "threshold_rules =
     [(None, 5, ''migration_misconfiguration'', 0.8),
      (Some ''webhook_401'', 3, ''webhook_auth_failure'', 0.7),
      (Some ''frontend_state_mismatch'', 3, ''frontend_backend_mismatch'', 0.65),
      (Some ''unknown'', 10, ''platform_regression'', 0.6)]"

text \<open>
  The counter a rule reads, from the stored statistics: the number of failed checkouts,
  or the count recorded for an error type (0 when the type has no entry).
\<close>

definition rule_counter :: "stats \<Rightarrow> string option \<Rightarrow> nat" where
  "rule_counter st src =
     (case src of
        None \<Rightarrow> failed_checkouts st
      | Some t \<Rightarrow> (case map_of (error_types st) t of None \<Rightarrow> 0 | Some n \<Rightarrow> n))"

definition rule_fires :: "stats \<Rightarrow> string option \<times> nat \<times> string \<times> real \<Rightarrow> bool" where
  "rule_fires st rule =
     (case rule of (src, threshold, c, k) \<Rightarrow> threshold \<le> rule_counter st src)"

definition rule_hypothesis ::
  "string option \<times> nat \<times> string \<times> real \<Rightarrow> json option \<times> real option" where
  "rule_hypothesis rule = (case rule of (src, threshold, c, k) \<Rightarrow> (Some (JStr c), Some k))"

definition cause_and_confidence :: "hypothesis \<Rightarrow> json option \<times> real option" where
  "cause_and_confidence h = (h_cause h, h_confidence h)"

subsection \<open>The delegate path\<close>

text \<open>
  Library functions and the environment, taken as parameters: \<open>json.dumps\<close>, \<open>str\<close> of
  a value, \<open>float\<close> of a string (absent when the string is not a number), \<open>repr\<close> of a
  string, the rendering of the statistics and anomalies inside the prompt, and the
  standard output, whose \<open>write\<close> either succeeds or raises (a \<open>UnicodeEncodeError\<close>
  when its encoding cannot express the text).
\<close>

record pylib =
  json_dumps :: "json \<Rightarrow> string"
  py_str :: "json \<Rightarrow> string"
  float_of_str :: "string \<Rightarrow> real option"
  repr_str :: "string \<Rightarrow> string"
  str_stats :: "stats \<Rightarrow> string"
  str_anomalies :: "anomaly list \<Rightarrow> string"
  stdout_write :: "string \<Rightarrow> exn option"

type_synonym jobject = "(string \<times> json) list"

text \<open>A delegate: \<open>generate(prompt)\<close> returns a JSON object or raises.\<close>

type_synonym delegate = "string \<Rightarrow> exn + jobject"

definition newline :: string where
  "newline = [CHR 0x0A]"

definition apostrophe :: string where
  "apostrophe = [CHR 0x27]"

text \<open>\<open>print(text)\<close>: the text and a line end go to the standard output.\<close>

definition py_print :: "pylib \<Rightarrow> string \<Rightarrow> exn option" where
  "py_print lib text = stdout_write lib (text @ newline)"

text \<open>The three symbols of the diagnostic lines, as UTF-8: U+1F9E0, U+26A1, U+274C.\<close>

definition brain_sign :: string where
  "brain_sign = [CHR 0xF0, CHR 0x9F, CHR 0xA7, CHR 0xA0]"

definition voltage_sign :: string where
  "voltage_sign = [CHR 0xE2, CHR 0x9A, CHR 0xA1]"

definition cross_mark :: string where
  "cross_mark = [CHR 0xE2, CHR 0x9D, CHR 0x8C]"

fun type_name :: "json \<Rightarrow> string" where
  "type_name JNull = ''NoneType''"
| "type_name (JBool b) = ''bool''"
| "type_name (JInt n) = ''int''"
| "type_name (JNum x) = ''float''"
| "type_name (JStr s) = ''str''"
| "type_name (JArr xs) = ''list''"
| "type_name (JObj d) = ''dict''"

definition lower_char :: "char \<Rightarrow> char" where
  "lower_char c =
     (let n = (of_char c :: nat) in if 65 \<le> n \<and> n \<le> 90 then char_of (n + 32) else c)"

text \<open>\<open>os.getenv("USE_LLM", "true").lower() == "true"\<close>, the variable being a parameter.\<close>

definition use_llm_env :: "string option \<Rightarrow> bool" where
  "use_llm_env v = (map lower_char (get_or ''true'' v) = ''true'')"

definition should_use_llm :: "'a observation_scheme \<Rightarrow> bool" where
  "should_use_llm obs =
     (if o_confidence obs < 0.85 then True
      else if 2 \<le> length (anomalies obs) then True
      else False)"

fun truthy :: "json \<Rightarrow> bool" where
  "truthy JNull = False"
| "truthy (JBool b) = b"
| "truthy (JInt n) = (n \<noteq> 0)"
| "truthy (JNum x) = (x \<noteq> 0)"
| "truthy (JStr s) = (s \<noteq> [])"
| "truthy (JArr xs) = (xs \<noteq> [])"
| "truthy (JObj d) = (d \<noteq> [])"

definition py_or :: "json \<Rightarrow> json \<Rightarrow> json" where
  "py_or a b = (if truthy a then a else b)"

text \<open>\<open>d.get(key)\<close>: Python's \<open>None\<close> when the key is absent.\<close>

definition dict_get :: "jobject \<Rightarrow> string \<Rightarrow> json" where
  "dict_get d k = get_or JNull (map_of d k)"

fun stringify :: "pylib \<Rightarrow> json \<Rightarrow> json" where
  "stringify lib (JStr s) = JStr s"
| "stringify lib (JObj d) =
     py_or (dict_get d ''description'')
       (py_or (dict_get d ''explanation'')
          (py_or (dict_get d ''justification'') (JStr (json_dumps lib (JObj d)))))"
| "stringify lib v = JStr (py_str lib v)"

text \<open>The number a numeric value stands for (\<open>True\<close> is 1, \<open>False\<close> is 0).\<close>

fun num_value :: "json \<Rightarrow> real" where
  "num_value (JInt n) = of_int n"
| "num_value (JNum x) = x"
| "num_value (JBool b) = (if b then 1 else 0)"
| "num_value v = 0"

text \<open>
  \<open>float(v)\<close>: a float is kept, a bool is a number, an integer converts unless it rounds
  beyond the largest double (\<open>OverflowError\<close>), a string is parsed (\<open>ValueError\<close> when
  it is no number), anything else is a \<open>TypeError\<close>. The messages are CPython's.
\<close>

fun py_float :: "pylib \<Rightarrow> json \<Rightarrow> exn + real" where
  "py_float lib (JNum x) = Inr x"
| "py_float lib (JBool b) = Inr (if b then 1 else 0)"
| "py_float lib (JInt n) =
     (if 2 ^ 1024 - 2 ^ 970 \<le> \<bar>n\<bar>
      then Inl (Raised ''OverflowError'' ''int too large to convert to float'')
      else Inr (of_int n))"
| "py_float lib (JStr s) =
     (case float_of_str lib s of
        None \<Rightarrow>
          Inl (Raised ''ValueError'' (''could not convert string to float: '' @ repr_str lib s))
      | Some x \<Rightarrow> Inr x)"
| "py_float lib v =
     Inl (Raised ''TypeError''
            (''float() argument must be a string or a real number, not ''
             @ apostrophe @ type_name v @ apostrophe))"

text \<open>\<open>for a in v\<close>: a list gives its items, a string its characters, a dict its keys.\<close>

fun py_iter :: "json \<Rightarrow> exn + json list" where
  "py_iter (JArr xs) = Inr xs"
| "py_iter (JStr s) = Inr (map (\<lambda>c. JStr [c]) s)"
| "py_iter (JObj d) = Inr (map (\<lambda>kv. JStr (fst kv)) d)"
| "py_iter v =
     Inl (Raised ''TypeError''
            (apostrophe @ type_name v @ apostrophe @ '' object is not iterable''))"

text \<open>
  \<open>confidence = response.get("confidence", 0.5)\<close>, replaced by 0.5 unless it is an
  \<open>int\<close> or a \<open>float\<close> (a \<open>bool\<close> is an \<open>int\<close>).
\<close>

definition normalize_confidence :: "jobject \<Rightarrow> json" where
  "normalize_confidence response =
     (case get_or (JNum 0.5) (map_of response ''confidence'') of
        JInt n \<Rightarrow> JInt n
      | JNum x \<Rightarrow> JNum x
      | JBool b \<Rightarrow> JBool b
      | _ \<Rightarrow> JNum 0.5)"

text \<open>
  The loop over \<open>raw_hypotheses\<close>: a dict entry is copied with defaults, a string entry
  becomes a cause, any other entry is dropped; the first \<open>float\<close> that raises ends it.
\<close>

fun normalize_hypotheses :: "pylib \<Rightarrow> json \<Rightarrow> json list \<Rightarrow> exn + hypothesis list" where
  "normalize_hypotheses lib conf [] = Inr []"
| "normalize_hypotheses lib conf (JObj d # rest) =
     (case py_float lib (get_or conf (map_of d ''confidence'')) of
        Inl e \<Rightarrow> Inl e
      | Inr c \<Rightarrow>
          (case normalize_hypotheses lib conf rest of
             Inl e \<Rightarrow> Inl e
           | Inr hs \<Rightarrow>
               Inr (\<lparr>h_cause = Some (get_or (JStr ''unknown'') (map_of d ''cause'')),
                     h_explanation = Some (get_or (JStr []) (map_of d ''explanation'')),
                     h_confidence = Some c\<rparr> # hs)))"
| "normalize_hypotheses lib conf (JStr s # rest) =
     (case normalize_hypotheses lib conf rest of
        Inl e \<Rightarrow> Inl e
      | Inr hs \<Rightarrow>
          Inr (\<lparr>h_cause = Some (JStr s), h_explanation = Some (JStr []),
                h_confidence = Some (num_value conf)\<rparr> # hs))"
| "normalize_hypotheses lib conf (v # rest) = normalize_hypotheses lib conf rest"

definition stringify_all :: "pylib \<Rightarrow> json \<Rightarrow> exn + json list" where
  "stringify_all lib v =
     (case py_iter v of Inl e \<Rightarrow> Inl e | Inr xs \<Rightarrow> Inr (map (stringify lib) xs))"

text \<open>The body of the \<open>try\<close> block after the delegate has answered.\<close>

definition normalize_response :: "pylib \<Rightarrow> jobject \<Rightarrow> exn + reasoning" where
  "normalize_response lib response =
     (let confidence = normalize_confidence response in
      case (case get_or (JArr []) (map_of response ''hypotheses'') of
              JArr raw \<Rightarrow> normalize_hypotheses lib confidence raw
            | _ \<Rightarrow> Inr []) of
        Inl e \<Rightarrow> Inl e
      | Inr hs \<Rightarrow>
          (let hs' = (if hs = [] then
                        [mk_hypothesis ''unknown'' ''LLM did not return a valid hypothesis'' 0.4]
                      else hs)
           in case stringify_all lib (get_or (JArr []) (map_of response ''assumptions'')) of
                Inl e \<Rightarrow> Inl e
              | Inr as \<Rightarrow>
                  (case stringify_all lib (get_or (JArr []) (map_of response ''unknowns'')) of
                     Inl e \<Rightarrow> Inl e
                   | Inr us \<Rightarrow>
                       Inr \<lparr>reasoning_mode = ''llm'', hypotheses = hs', assumptions = as,
                            unknowns = us, r_confidence = num_value confidence,
                            r_error = None\<rparr>)))"

text \<open>The dictionary returned by the \<open>except Exception\<close> branch; \<open>r_error\<close> is \<open>str(e)\<close>.\<close>

definition llm_failed :: "exn \<Rightarrow> reasoning" where
  "llm_failed e =
     \<lparr>reasoning_mode = ''llm_failed'',
      hypotheses = [mk_hypothesis ''unknown'' ''LLM failed or returned malformed output'' 0.4],
      assumptions = [],
      unknowns = [JStr ''LLM reasoning failed''],
      r_confidence = 0.4,
      r_error = Some (exn_text e)\<rparr>"

definition build_prompt :: "pylib \<Rightarrow> 'a observation_scheme \<Rightarrow> string" where
  \<open>build_prompt lib obs =
     concat (map (\<lambda>l. l @ newline)
       [''You are an automated incident analysis system.'',
        [],
        ''STRICT RULES:'',
        ''- Return VALID JSON ONLY'',
        ''- Do NOT add nested objects'',
        ''- Do NOT add justification fields'',
        ''- Follow the schema EXACTLY'',
        [],
        ''SCHEMA:'',
        ''{'',
        ''  "hypotheses": ['',
        ''    {'',
        ''      "cause": "<snake_case_string>",'',
        ''      "explanation": "<short string>",'',
        ''      "confidence": <number between 0 and 1>'',
        ''    }'',
        ''  ],'',
        ''  "assumptions": ["<string>"],'',
        ''  "unknowns": ["<string>"],'',
        ''  "confidence": <number between 0 and 1>'',
        ''}'',
        [],
        ''DATA:'',
        ''Stats: '' @ str_stats lib (o_stats obs),
        ''Anomalies: '' @ str_anomalies lib (anomalies obs),
        []])
     @ ''Return JSON ONLY.''\<close>

text \<open>The \<open>try\<close> block of \<open>_reason_with_llm\<close>: the call of the delegate and what follows.\<close>

definition llm_attempt :: "pylib \<Rightarrow> delegate \<Rightarrow> 'a observation_scheme \<Rightarrow> exn + reasoning" where
  "llm_attempt lib llm obs =
     (case llm (build_prompt lib obs) of
        Inl e \<Rightarrow> Inl e
      | Inr response \<Rightarrow> normalize_response lib response)"

text \<open>
  \<open>_reason_with_llm\<close>: a line is printed before the \<open>try\<close> block, and the handler
  prints the exception before it returns the fallback. A \<open>print\<close> that raises is not
  inside any \<open>try\<close>, so its exception leaves the function.
\<close>

definition reason_with_llm ::
  "pylib \<Rightarrow> delegate \<Rightarrow> 'a observation_scheme \<Rightarrow> exn + reasoning" where
  "reason_with_llm lib llm obs =
     (case py_print lib (brain_sign @ '' ACTUALLY CALLING OLLAMA'') of
        Some e \<Rightarrow> Inl e
      | None \<Rightarrow>
          (case llm_attempt lib llm obs of
             Inr r \<Rightarrow> Inr r
           | Inl e \<Rightarrow>
               (case py_print lib (cross_mark @ '' LLM FAILURE: '' @ exn_text e) of
                  Some e' \<Rightarrow> Inl e'
                | None \<Rightarrow> Inr (llm_failed e))))"

text \<open>
  \<open>Reasoner.reason\<close>: the delegate is called only when one is configured, the
  environment does not disable it, and the observation is ambiguous.
\<close>

definition reason ::
  "pylib \<Rightarrow> string option \<Rightarrow> delegate option \<Rightarrow> 'a observation_scheme
     \<Rightarrow> exn + reasoning" where
  "reason lib env llm obs =
     (case (if use_llm_env env \<and> should_use_llm obs then llm else None) of
        Some g \<Rightarrow>
          (case py_print lib (brain_sign @ '' LLM reasoning enabled'') of
             Some e \<Rightarrow> Inl e
           | None \<Rightarrow> reason_with_llm lib g obs)
      | None \<Rightarrow>
          (case py_print lib (voltage_sign @ '' Deterministic reasoning'') of
             Some e \<Rightarrow> Inl e
           | None \<Rightarrow> Inr (reason_deterministic obs)))"

subsection \<open>The Ollama client (agent/llm\_client.py)\<close>

text \<open>
  The \<open>requests\<close> library and the JSON parser are parameters. \<open>post\<close> answers a URL and
  a JSON payload with a response object or raises (timeout, connection error); the
  response object's \<open>raise_for_status()\<close> raises or not, and its \<open>json()\<close> gives the
  decoded body or raises. \<open>loads\<close> is \<open>json.loads\<close>.
\<close>

record http_response =
  raise_for_status :: "exn option"
  response_json :: "exn + json"

type_synonym transport = "string \<Rightarrow> jobject \<Rightarrow> exn + http_response"

text \<open>
  \<open>str.strip()\<close> on UTF-8 text: the white space of \<open>str.isspace\<close>, one to three bytes
  long (U+0009..000D, U+001C..0020, U+0085, U+00A0, U+1680, U+2000..200A, U+2028,
  U+2029, U+202F, U+205F, U+3000).
\<close>

definition is_space1 :: "char \<Rightarrow> bool" where
  "is_space1 a = (a \<in> set [CHR 0x09, CHR 0x0A, CHR 0x0B, CHR 0x0C, CHR 0x0D,
                           CHR 0x1C, CHR 0x1D, CHR 0x1E, CHR 0x1F, CHR 0x20])"

definition is_space2 :: "char \<Rightarrow> char \<Rightarrow> bool" where
  "is_space2 a b = (a = CHR 0xC2 \<and> (b = CHR 0x85 \<or> b = CHR 0xA0))"

definition is_space3 :: "char \<Rightarrow> char \<Rightarrow> char \<Rightarrow> bool" where
  "is_space3 a b c =
     (a = CHR 0xE1 \<and> b = CHR 0x9A \<and> c = CHR 0x80
      \<or> a = CHR 0xE2 \<and> b = CHR 0x80
          \<and> c \<in> set [CHR 0x80, CHR 0x81, CHR 0x82, CHR 0x83, CHR 0x84, CHR 0x85, CHR 0x86,
                      CHR 0x87, CHR 0x88, CHR 0x89, CHR 0x8A, CHR 0xA8, CHR 0xA9, CHR 0xAF]
      \<or> a = CHR 0xE2 \<and> b = CHR 0x81 \<and> c = CHR 0x9F
      \<or> a = CHR 0xE3 \<and> b = CHR 0x80 \<and> c = CHR 0x80)"

fun lstrip :: "string \<Rightarrow> string" where
  "lstrip (a # b # c # rest) =
     (if is_space1 a then lstrip (b # c # rest)
      else if is_space2 a b then lstrip (c # rest)
      else if is_space3 a b c then lstrip rest
      else a # b # c # rest)"
| "lstrip [a, b] =
     (if is_space1 a then lstrip [b] else if is_space2 a b then [] else [a, b])"
| "lstrip [a] = (if is_space1 a then [] else [a])"
| "lstrip [] = []"

text \<open>The same from the end, on the reversed text: \<open>a\<close> is the last byte.\<close>

fun rstrip_reversed :: "string \<Rightarrow> string" where
  "rstrip_reversed (a # b # c # rest) =
     (if is_space1 a then rstrip_reversed (b # c # rest)
      else if is_space2 b a then rstrip_reversed (c # rest)
      else if is_space3 c b a then rstrip_reversed rest
      else a # b # c # rest)"
| "rstrip_reversed [a, b] =
     (if is_space1 a then rstrip_reversed [b] else if is_space2 b a then [] else [a, b])"
| "rstrip_reversed [a] = (if is_space1 a then [] else [a])"
| "rstrip_reversed [] = []"

definition strip :: "string \<Rightarrow> string" where
  "strip s = rev (rstrip_reversed (rev (lstrip s)))"

definition generate ::
  "transport \<Rightarrow> (string \<Rightarrow> exn + json) \<Rightarrow> string \<Rightarrow> string \<Rightarrow> delegate" where
  "generate post loads model base_url prompt =
     (let payload = [(''model'', JStr model), (''prompt'', JStr prompt),
                     (''stream'', JBool False), (''format'', JStr ''json'')] in
      case post (base_url @ ''/api/generate'') payload of
        Inl e \<Rightarrow> Inl e
      | Inr response \<Rightarrow>
          (case raise_for_status response of
             Some e \<Rightarrow> Inl e
           | None \<Rightarrow>
               (case response_json response of
                  Inl e \<Rightarrow> Inl e
                | Inr (JObj raw) \<Rightarrow>
                    (case get_or (JStr []) (map_of raw ''response'') of
                       JStr text \<Rightarrow>
                         if strip text = [] then
                           Inl (Raised ''ValueError'' ''LLM returned empty response'')
                         else
                           (case loads (strip text) of
                              Inl e \<Rightarrow>
                                if exn_class e = ''JSONDecodeError'' then
                                  Inl (Raised ''ValueError''
                                         (''LLM returned invalid JSON:'' @ newline @ strip text))
                                else Inl e
                            | Inr (JObj parsed) \<Rightarrow> Inr parsed
                            | Inr v \<Rightarrow>
                                Inl (Raised ''ValueError''
                                       (''LLM JSON root must be an object, got <class ''
                                        @ apostrophe @ type_name v @ apostrophe @ ''>'')))
                     | _ \<Rightarrow> Inl (Raised ''ValueError'' ''LLM returned empty response''))
                | Inr v \<Rightarrow>
                    Inl (Raised ''AttributeError''
                           (apostrophe @ type_name v @ apostrophe
                            @ '' object has no attribute '' @ apostrophe @ ''get''
                            @ apostrophe)))))"

text \<open>
  A standard output encoded as UTF-8. Text is held as UTF-8 bytes; a lone surrogate
  (U+D800..DFFF, which a JSON escape such as \<open>\ud800\<close> produces) is the byte 0xED followed
  by a byte in 0xA0..0xBF, and the UTF-8 codec refuses to write it (the text of its
  exception is shortened to the reason it gives).
\<close>

fun has_surrogate :: "string \<Rightarrow> bool" where
  "has_surrogate (a # b # rest) =
     (a = CHR 0xED \<and> 0xA0 \<le> (of_char b :: nat) \<and> (of_char b :: nat) \<le> 0xBF
      \<or> has_surrogate (b # rest))"
| "has_surrogate s = False"

definition utf8_stdout :: "string \<Rightarrow> exn option" where
  "utf8_stdout s =
     (if has_surrogate s then Some (Raised ''UnicodeEncodeError'' ''surrogates not allowed'')
      else None)"

text \<open>Sample inputs of the Reasoner.\<close>

definition no_lib :: pylib where
  "no_lib =
     \<lparr>json_dumps = (\<lambda>v. []), py_str = (\<lambda>v. []), float_of_str = (\<lambda>s. None),
      repr_str = (\<lambda>s. []), str_stats = (\<lambda>st. []), str_anomalies = (\<lambda>as. []),
      stdout_write = utf8_stdout\<rparr>"

definition Timeout :: exn where
  "Timeout = Raised ''ReadTimeout'' ''Read timed out. (read timeout=300)''"

definition timed_out :: transport where
  "timed_out url payload = Inl Timeout"

definition not_json :: "string \<Rightarrow> exn + json" where
  "not_json s = Inl (Raised ''JSONDecodeError'' ''Expecting value: line 1 column 1 (char 0)'')"

text \<open>
  A delegate service that answers with a text holding a lone surrogate and no JSON:
  the body \<open>{"response": "\ud800"}\<close>.
\<close>

definition surrogate_text :: string where
  "surrogate_text = [CHR 0xED, CHR 0xA0, CHR 0x80]"

definition surrogate_answer :: transport where
  "surrogate_answer url payload =
     Inr \<lparr>raise_for_status = None,
          response_json = Inr (JObj [(''response'', JStr surrogate_text)])\<rparr>"

definition zero_stats :: stats where
  "zero_stats =
     \<lparr>ticket_count = 0, error_count = 0, failed_checkouts = 0, error_types = [],
      migration_stage_distribution = []\<rparr>"

definition mixed_stats :: stats where
  "mixed_stats =
     \<lparr>ticket_count = 12, error_count = 15, failed_checkouts = 4,
      error_types = [(''webhook_401'', 3), (''frontend_state_mismatch'', 2), (''unknown'', 10)],
      migration_stage_distribution = []\<rparr>"

definition observation_of :: "real \<Rightarrow> stats \<Rightarrow> observation" where
  "observation_of c st =
     \<lparr>observation_id = 1, o_confidence = c, o_timestamp = 0,
      o_signals = \<lparr>tickets = [], errors = [], checkouts = [], webhooks = [],
                   migration_states = []\<rparr>,
      o_stats = st, anomalies = []\<rparr>"

section \<open>Actor (agent/act.py)\<close>

text \<open>
  An action record: its \<open>action\<close> key names the kind, the other keys depend on the kind.
  \<open>decision.get("reason")\<close> and \<open>decision.get("severity")\<close> are copied as they are.
\<close>

datatype action =
    Monitoring string
  | Support_guidance_prepared string string
  | Engineering_escalation_created "string option" string

fun action_name :: "action \<Rightarrow> string" where
  "action_name (Monitoring note) = ''monitoring''"
| "action_name (Support_guidance_prepared message rsn) = ''support_guidance_prepared''"
| "action_name (Engineering_escalation_created sev summary) = ''engineering_escalation_created''"

record state_update =
  su_timestamp :: real
  su_observation_id :: nat
  actions_taken :: "action list"
  pending_approvals :: "decision list"
  su_risk_level :: string

definition act_monitor :: "decision \<Rightarrow> action" where
  "act_monitor d = Monitoring (d_reason d)"

definition act_support_guidance :: "decision \<Rightarrow> action" where
  "act_support_guidance d =
     Support_guidance_prepared
       (''Provide merchant with migration checklist, ''
        @ ''webhook verification steps, and API credential validation.'')
       (d_reason d)"

definition act_escalate_engineering :: "decision \<Rightarrow> action" where
  "act_escalate_engineering d =
     Engineering_escalation_created (severity d)
       ''Potential platform regression detected during headless migration.''"

definition execute :: "decision \<Rightarrow> action option" where
  "execute d =
     (if d_type d = ''monitor_only'' then Some (act_monitor d)
      else if d_type d = ''support_guidance'' then Some (act_support_guidance d)
      else if d_type d = ''escalate_engineering'' then Some (act_escalate_engineering d)
      else None)"

text \<open>
  The state file: absent, unreadable as JSON, or holding the list of earlier updates.
  \<open>_write_state\<close> starts from the empty list in the first two cases.
\<close>

datatype state_file = Absent | Not_json | Stored "state_update list"

fun write_state :: "state_file \<Rightarrow> state_update \<Rightarrow> state_file" where
  "write_state (Stored existing) update = Stored (existing @ [update])"
| "write_state f update = Stored [update]"

text \<open>One turn of the loop of \<open>Actor.act\<close> over the two lists it fills.\<close>

definition act_step :: "action list \<times> decision list \<Rightarrow> decision \<Rightarrow> action list \<times> decision list" where
  "act_step acc d =
     (case acc of (taken, pending) \<Rightarrow>
        if requires_human_approval d then (taken, pending @ [d])
        else (case execute d of
                None \<Rightarrow> (taken, pending)
              | Some a \<Rightarrow> (taken @ [a], pending)))"

definition act :: "real \<Rightarrow> state_file \<Rightarrow> decision_output \<Rightarrow> state_update \<times> state_file" where
  "act now file dout =
     (case foldl act_step ([], []) (decisions dout) of (taken, pending) \<Rightarrow>
        (let update = \<lparr>su_timestamp = now,
                        su_observation_id = do_observation_id dout,
                        actions_taken = taken,
                        pending_approvals = pending,
                        su_risk_level = risk_level dout\<rparr>
         in (update, write_state file update)))"

text \<open>The kind of action the specification assigns to a decision variant, if any.\<close>

definition spec_action_kind :: "string \<Rightarrow> string option" where
  "spec_action_kind variant =
     (if variant = ''monitor_only'' then Some ''monitoring''
      else if variant = ''support_guidance'' then Some ''support_guidance_prepared''
      else if variant = ''escalate_engineering'' then Some ''engineering_escalation_created''
      else None)"

definition mixed_decisions :: decision_output where
  "mixed_decisions =
     \<lparr>do_observation_id = 3,
      decisions =
        [documentation_update ''Frontend and backend state mismatch observed'',
         monitor_only ''Mismatch may resolve after configuration sync'',
         \<lparr>d_type = ''block_auto_actions'', d_reason = ''unapproved'',
           requires_human_approval = False, severity = None\<rparr>,
         escalate_engineering ''high'' ''Suspected platform regression across services'' False],
      risk_level = ''high'',
      do_trace = \<lparr>observation_confidence = 0.9, reasoning_confidence = 0.65\<rparr>\<rparr>"

section \<open>Memory (agent/memory.py)\<close>

text \<open>
  The memory file holds the list of incidents; \<open>_load\<close> and \<open>_save\<close> read and write the
  whole list, so each operation takes the stored list and returns the new one. The
  generated \<open>uuid4\<close> and the clock reading are parameters.
\<close>

record incident =
  incident_id :: string
  i_timestamp :: real
  i_observation :: observation
  i_reasoning :: reasoning
  i_decision :: decision_output
  i_action :: state_update
  outcome :: "jobject option"

definition record_incident ::
  "string \<Rightarrow> real \<Rightarrow> observation \<Rightarrow> reasoning \<Rightarrow> decision_output \<Rightarrow> state_update
     \<Rightarrow> incident list \<Rightarrow> string \<times> incident list" where
  "record_incident uuid now obs r dec a memory =
     (let inc = \<lparr>incident_id = uuid, i_timestamp = now, i_observation = obs,
                  i_reasoning = r, i_decision = dec, i_action = a, outcome = None\<rparr>
      in (incident_id inc, memory @ [inc]))"

text \<open>
  \<open>{"timestamp": time.time(), **outcome}\<close>: the keys of \<open>outcome\<close> are written over
  the literal's own entry, so a \<open>timestamp\<close> key of \<open>outcome\<close> replaces the clock reading.
\<close>

definition stamped :: "real \<Rightarrow> jobject \<Rightarrow> jobject" where
  "stamped now outc =
     foldl (\<lambda>d kv. AList.update (fst kv) (snd kv) d) [(''timestamp'', JNum now)] outc"

text \<open>The loop of \<open>update_outcome\<close>: the first entry with the id is changed, then \<open>break\<close>.\<close>

fun attach_outcome :: "string \<Rightarrow> jobject \<Rightarrow> incident list \<Rightarrow> incident list" where
  "attach_outcome iid stamped_outcome [] = []"
| "attach_outcome iid stamped_outcome (entry # rest) =
     (if incident_id entry = iid then entry\<lparr>outcome := Some stamped_outcome\<rparr> # rest
      else entry # attach_outcome iid stamped_outcome rest)"

definition update_outcome :: "real \<Rightarrow> string \<Rightarrow> jobject \<Rightarrow> incident list \<Rightarrow> incident list" where
  "update_outcome now iid outc memory = attach_outcome iid (stamped now outc) memory"



text \<open>
  A reader's lookup of an incident by id (the first stored entry with the id), and the
  attachment time of its outcome.
\<close>

definition lookup_incident :: "string \<Rightarrow> incident list \<Rightarrow> incident option" where
  "lookup_incident iid memory = find (\<lambda>e. incident_id e = iid) memory"

definition attachment_time :: "string \<Rightarrow> incident list \<Rightarrow> json option" where
  "attachment_time iid memory =
     (case lookup_incident iid memory of
        None \<Rightarrow> None
      | Some e \<Rightarrow> (case outcome e of None \<Rightarrow> None | Some d \<Rightarrow> map_of d ''timestamp''))"



text \<open>Sample incident: the tied reasoning, recorded under a given id.\<close>

definition sample_incident :: "string \<Rightarrow> incident" where
  "sample_incident iid =
     \<lparr>incident_id = iid, i_timestamp = 1,
      i_observation = observation_of 0.9 zero_stats,
      i_reasoning = tied_reasoning,
      i_decision = mixed_decisions,
      i_action = fst (act 1 Absent mixed_decisions),
      outcome = None\<rparr>"

section \<open>Properties of the Decider\<close>

text \<open>
  Claim C1. Whenever the observation's confidence is strictly below 0.6, \<open>decide\<close>
  returns exactly one decision, of type \<open>block_auto_actions\<close> with
  \<open>requires_human_approval\<close> true, and risk level \<open>high\<close>, whatever the reasoning and
  its hypotheses are.
\<close>

theorem decide_low_confidence_blocks:
  assumes "o_confidence obs < 0.6"
  shows "\<exists>d. decisions (decide obs r) = [d]
           \<and> d_type d = ''block_auto_actions''
           \<and> requires_human_approval d
           \<and> risk_level (decide obs r) = ''high''
           \<and> decisions (decide obs r) = decisions (decide obs r')
           \<and> risk_level (decide obs r) = risk_level (decide obs r')"
  using assms by (simp add: decide_def block_def Let_def)

theorem decide_low_confidence_blocks_witness:
  "\<exists>d. decisions (decide \<lparr>observation_id = 1, o_confidence = 0.5\<rparr>
            \<lparr>reasoning_mode = ''deterministic'',
             hypotheses = [\<lparr>h_cause = Some (JStr ''platform_regression''),
                            h_explanation = None, h_confidence = Some 0.9\<rparr>],
             assumptions = [], unknowns = [], r_confidence = 0.9, r_error = None\<rparr>) = [d]
       \<and> d_type d = ''block_auto_actions''"
proof -
  have low: "o_confidence \<lparr>observation_id = 1, o_confidence = 0.5\<rparr> < 0.6"
    by simp
  from decide_low_confidence_blocks [OF low] show ?thesis
    by blast
qed






text \<open>
  Claim C6. The aggregate risk level of a decision list is \<open>high\<close> if some decision is an
  \<open>escalate_engineering\<close>, otherwise \<open>medium\<close> if some decision requires approval,
  otherwise \<open>low\<close>; the non-blocked path of \<open>decide\<close> reports exactly this level for the
  decisions it returns, so a decision set with an \<open>escalate_engineering\<close> entry is
  always \<open>high\<close>.
\<close>

theorem assess_risk_levels:
  "assess_risk ds =
     (if \<exists>d \<in> set ds. d_type d = ''escalate_engineering'' then ''high''
      else if \<exists>d \<in> set ds. requires_human_approval d then ''medium''
      else ''low'')
   \<and> (0.6 \<le> o_confidence obs \<longrightarrow>
        risk_level (decide obs r) = assess_risk (decisions (decide obs r)))
   \<and> ((\<exists>d \<in> set ds. d_type d = ''escalate_engineering'') \<longrightarrow> assess_risk ds = ''high'')"
  by (simp add: assess_risk_def list_ex_iff decide_def finalize_def Let_def)

theorem assess_risk_levels_witness:
  "0.6 \<le> o_confidence sample_head
   \<and> (\<exists>d \<in> set (decisions (decide sample_head tied_reasoning)).
         d_type d = ''escalate_engineering'')
   \<and> risk_level (decide sample_head tied_reasoning) = ''high''"
proof -
  have conf: "0.6 \<le> o_confidence sample_head"
    by (simp add: sample_head_def)
  have esc: "\<exists>d \<in> set (decisions (decide sample_head tied_reasoning)).
               d_type d = ''escalate_engineering''"
    by (simp add: decide_def sample_head_def tied_reasoning_def get_top_hypothesis_def
        py_max_def conf_key_def finalize_def policy_by_cause_def
        escalate_engineering_def Let_def)
  from assess_risk_levels
    [of "decisions (decide sample_head tied_reasoning)" sample_head tied_reasoning]
    conf esc
  show ?thesis
    by simp
qed

section \<open>Properties of the Observer\<close>

lemma incr_map_of:
  "map_of (incr k d) = (map_of d)(k \<mapsto> (case map_of d k of None \<Rightarrow> 1 | Some n \<Rightarrow> n + 1))"
  by (induction k d rule: incr.induct) (auto simp: fun_eq_iff)

lemma incr_keys: "fst ` set (incr k d) = insert k (fst ` set d)"
  by (induction k d rule: incr.induct) auto

lemma incr_distinct: "distinct (map fst d) \<Longrightarrow> distinct (map fst (incr k d))"
  by (induction k d rule: incr.induct) (auto simp: incr_keys)

lemma foldl_incr_distinct:
  "distinct (map fst d) \<Longrightarrow> distinct (map fst (foldl (\<lambda>d k. incr k d) d ks))"
  by (induction ks arbitrary: d) (simp_all add: incr_distinct)

lemma foldl_incr_map_of:
  "map_of (foldl (\<lambda>d k. incr k d) d ks) t =
     (if count_list ks t = 0 then map_of d t
      else Some (count_list ks t + (case map_of d t of None \<Rightarrow> 0 | Some n \<Rightarrow> n)))"
  by (induction ks arbitrary: d) (auto simp: incr_map_of split: option.splits)

lemma histogram_distinct: "distinct (map fst (histogram ks))"
  unfolding histogram_def by (rule foldl_incr_distinct) simp

lemma histogram_map_of:
  "map_of (histogram ks) t = (if count_list ks t = 0 then None else Some (count_list ks t))"
  unfolding histogram_def by (simp add: foldl_incr_map_of)

lemma count_list_map_filter:
  "count_list (map f xs) t = length (filter (\<lambda>x. f x = t) xs)"
  by (induction xs) auto

lemma repeated_errors_member:
  "a \<in> set (repeated_errors d) \<longleftrightarrow> (\<exists>t n. (t, n) \<in> set d \<and> 5 \<le> n \<and> a = repeated_error t n)"
  by (induction d rule: repeated_errors.induct) auto

lemma repeated_error_inject:
  "repeated_error t n = repeated_error t' n' \<longleftrightarrow> t = t' \<and> n = n'"
  by (auto simp: repeated_error_def)

lemma repeated_errors_count:
  assumes "distinct (map fst d)"
  shows "count_list (repeated_errors d) (repeated_error t n) =
           (if map_of d t = Some n \<and> 5 \<le> n then 1 else 0)"
  using assms
proof (induction d rule: repeated_errors.induct)
  case 1
  show ?case by simp
next
  case (2 t' n' rest)
  then show ?case
    by (auto simp: repeated_error_inject dest: map_of_SomeD intro: rev_image_eqI)
qed


lemma missing_sources_eq:
  "missing_sources (ingest_signals raw) = number_of_empty_buckets raw"
  by (simp add: missing_sources_def ingest_signals_def number_of_empty_buckets_def
      bucket_is_empty_def get_or_def split: option.splits)

lemma number_of_empty_buckets_le: "number_of_empty_buckets raw \<le> 5"
  by (simp add: number_of_empty_buckets_def)

lemma observe_stats:
  "failed_checkouts (compute_stats (ingest_signals raw)) = failed_count raw"
  "map_of (error_types (compute_stats (ingest_signals raw))) t =
     (if error_type_count raw t = 0 then None else Some (error_type_count raw t))"
  "distinct (map fst (error_types (compute_stats (ingest_signals raw))))"
  by (simp_all add: compute_stats_def ingest_signals_def failed_count_def
      error_type_count_def histogram_map_of histogram_distinct count_list_map_filter
      get_or_def split: option.splits)

text \<open>
  Claim C4. For every raw batch, the observation's confidence is
  \<open>max(0.5, 1.0 - 0.1 * number_of_empty_buckets)\<close> and so lies between 0.5 and 1.0.
  Its anomaly list holds the anomaly of type \<open>checkout_failures\<close> with severity \<open>high\<close>
  and the number of failed checkouts exactly once when some checkout failed and not at
  all otherwise; for every error type it holds the anomaly of type \<open>repeated_error\<close>
  with severity \<open>medium\<close>, that error type and its number of occurrences exactly once
  when the type occurs at least 5 times and not at all otherwise; and it holds nothing
  else.
\<close>

theorem observe_confidence_and_anomalies:
  assumes "obs = fst (observe counter now raw)"
  shows "o_confidence obs = max 0.5 (1.0 - 0.1 * real (number_of_empty_buckets raw))
       \<and> 0.5 \<le> o_confidence obs \<and> o_confidence obs \<le> 1.0
       \<and> count_list (anomalies obs)
           \<lparr>a_type = ''checkout_failures'', a_error_type = None,
            a_count = failed_count raw, a_severity = ''high''\<rparr> =
           (if 0 < failed_count raw then 1 else 0)
       \<and> (\<forall>t. count_list (anomalies obs)
                \<lparr>a_type = ''repeated_error'', a_error_type = Some t,
                 a_count = error_type_count raw t, a_severity = ''medium''\<rparr> =
                (if 5 \<le> error_type_count raw t then 1 else 0))
       \<and> (\<forall>a \<in> set (anomalies obs).
             a = \<lparr>a_type = ''checkout_failures'', a_error_type = None,
                  a_count = failed_count raw, a_severity = ''high''\<rparr>
               \<and> 0 < failed_count raw
             \<or> (\<exists>t. a = \<lparr>a_type = ''repeated_error'', a_error_type = Some t,
                          a_count = error_type_count raw t, a_severity = ''medium''\<rparr>
                    \<and> 5 \<le> error_type_count raw t))"
proof -
  define st where "st = compute_stats (ingest_signals raw)"
  have conf: "o_confidence obs = max 0.5 (1.0 - 0.1 * real (number_of_empty_buckets raw))"
    using assms
    by (simp add: observe_def Let_def estimate_confidence_def missing_sources_eq max.commute)
  have range: "0.5 \<le> o_confidence obs \<and> o_confidence obs \<le> 1.0"
    unfolding conf by simp
  have an: "anomalies obs =
              (if 0 < failed_count raw then [checkout_failures (failed_count raw)] else [])
              @ repeated_errors (error_types st)"
    using assms
    by (simp add: observe_def Let_def detect_anomalies_def observe_stats(1) st_def)
  have dist: "distinct (map fst (error_types st))"
    unfolding st_def by (rule observe_stats(3))
  have look: "map_of (error_types st) t =
                (if error_type_count raw t = 0 then None else Some (error_type_count raw t))"
    for t
    unfolding st_def by (rule observe_stats(2))
  have diff: "checkout_failures n \<noteq> repeated_error t m" for n t m
    by (simp add: checkout_failures_def repeated_error_def)
  have no_cf: "count_list (repeated_errors d) (checkout_failures n) = 0" for d n
    by (induction d rule: repeated_errors.induct)
      (simp_all add: checkout_failures_def repeated_error_def)
  have c1: "count_list (anomalies obs) (checkout_failures (failed_count raw)) =
              (if 0 < failed_count raw then 1 else 0)"
    unfolding an by (simp add: no_cf)
  have c2: "\<forall>t. count_list (anomalies obs) (repeated_error t (error_type_count raw t)) =
              (if 5 \<le> error_type_count raw t then 1 else 0)"
  proof
    fix t
    show "count_list (anomalies obs) (repeated_error t (error_type_count raw t)) =
            (if 5 \<le> error_type_count raw t then 1 else 0)"
      unfolding an using diff [of "failed_count raw" t "error_type_count raw t"]
      by (simp add: repeated_errors_count [OF dist] look)
  qed
  have c3: "\<forall>a \<in> set (anomalies obs).
              a = checkout_failures (failed_count raw) \<and> 0 < failed_count raw
              \<or> (\<exists>t. a = repeated_error t (error_type_count raw t)
                     \<and> 5 \<le> error_type_count raw t)"
  proof
    fix a
    assume mem: "a \<in> set (anomalies obs)"
    show "a = checkout_failures (failed_count raw) \<and> 0 < failed_count raw
            \<or> (\<exists>t. a = repeated_error t (error_type_count raw t)
                   \<and> 5 \<le> error_type_count raw t)"
    proof (cases "a \<in> set (repeated_errors (error_types st))")
      case True
      then obtain t n where
        tn: "(t, n) \<in> set (error_types st)" "5 \<le> n" "a = repeated_error t n"
        by (auto simp: repeated_errors_member)
      from tn(1) dist have "map_of (error_types st) t = Some n"
        by simp
      with look [of t] have "n = error_type_count raw t"
        by (simp split: if_splits)
      with tn show ?thesis by blast
    next
      case False
      with mem show ?thesis
        unfolding an by (simp split: if_splits)
    qed
  qed
  have cf: "checkout_failures (failed_count raw) =
              \<lparr>a_type = ''checkout_failures'', a_error_type = None,
               a_count = failed_count raw, a_severity = ''high''\<rparr>"
    by (simp add: checkout_failures_def)
  have re: "repeated_error t (error_type_count raw t) =
              \<lparr>a_type = ''repeated_error'', a_error_type = Some t,
               a_count = error_type_count raw t, a_severity = ''medium''\<rparr>" for t
    by (simp add: repeated_error_def)
  from c1 c2 c3 have
    "count_list (anomalies obs)
       \<lparr>a_type = ''checkout_failures'', a_error_type = None,
        a_count = failed_count raw, a_severity = ''high''\<rparr> =
       (if 0 < failed_count raw then 1 else 0)"
    and "\<forall>t. count_list (anomalies obs)
            \<lparr>a_type = ''repeated_error'', a_error_type = Some t,
             a_count = error_type_count raw t, a_severity = ''medium''\<rparr> =
            (if 5 \<le> error_type_count raw t then 1 else 0)"
    and "\<forall>a \<in> set (anomalies obs).
           a = \<lparr>a_type = ''checkout_failures'', a_error_type = None,
                a_count = failed_count raw, a_severity = ''high''\<rparr>
             \<and> 0 < failed_count raw
           \<or> (\<exists>t. a = \<lparr>a_type = ''repeated_error'', a_error_type = Some t,
                        a_count = error_type_count raw t, a_severity = ''medium''\<rparr>
                  \<and> 5 \<le> error_type_count raw t)"
    unfolding cf re by blast+
  with conf range show ?thesis
    by blast
qed

theorem observe_confidence_and_anomalies_witness:
  "o_confidence (fst (observe 0 1 scenario_checkout_failure)) = 0.9
   \<and> count_list (anomalies (fst (observe 0 1 scenario_checkout_failure)))
        \<lparr>a_type = ''checkout_failures'', a_error_type = None, a_count = 8,
         a_severity = ''high''\<rparr> = 1
   \<and> count_list (anomalies (fst (observe 0 1 scenario_checkout_failure)))
        \<lparr>a_type = ''repeated_error'', a_error_type = Some ''checkout_timeout'',
         a_count = 10, a_severity = ''medium''\<rparr> = 1
   \<and> length (anomalies (fst (observe 0 1 scenario_checkout_failure))) = 2"
proof -
  have e1: "number_of_empty_buckets scenario_checkout_failure = 1"
    by (simp add: number_of_empty_buckets_def scenario_checkout_failure_def
        bucket_is_empty_def)
  have e2: "failed_count scenario_checkout_failure = 8"
    by code_simp
  have e3: "error_type_count scenario_checkout_failure ''checkout_timeout'' = 10"
    by code_simp
  have len: "length (anomalies (fst (observe 0 1 scenario_checkout_failure))) = 2"
    by code_simp
  define obs where "obs = fst (observe 0 1 scenario_checkout_failure)"
  note all = observe_confidence_and_anomalies [OF obs_def]
  from all have "o_confidence obs = 0.9"
    by (simp add: e1)
  moreover from all have
    "count_list (anomalies obs)
       \<lparr>a_type = ''checkout_failures'', a_error_type = None, a_count = 8,
        a_severity = ''high''\<rparr> = 1"
    by (simp add: e2)
  moreover from all have
    "count_list (anomalies obs)
       \<lparr>a_type = ''repeated_error'', a_error_type = Some ''checkout_timeout'',
        a_count = error_type_count scenario_checkout_failure ''checkout_timeout'',
        a_severity = ''medium''\<rparr> =
     (if 5 \<le> error_type_count scenario_checkout_failure ''checkout_timeout'' then 1 else 0)"
    by blast
  then have
    "count_list (anomalies obs)
       \<lparr>a_type = ''repeated_error'', a_error_type = Some ''checkout_timeout'',
        a_count = 10, a_severity = ''medium''\<rparr> = 1"
    by (simp add: e3)
  ultimately show ?thesis
    using len unfolding obs_def by blast
qed

section \<open>Properties of the Reasoner\<close>

lemma max_from_id_Max: "max_from id b xs = Max (set (b # xs))"
proof (induction xs arbitrary: b)
  case Nil
  show ?case by simp
next
  case (Cons x xs)
  have "Max (set (b # x # xs)) = Max (set (max b x # xs))"
    by (cases "xs = []") (simp_all add: max.assoc)
  moreover have "(if id b < id x then x else b) = max b x"
    by (simp add: max_def)
  ultimately show ?case
    using Cons.IH [of "max b x"] by simp
qed

lemma py_max_id_Max: "xs \<noteq> [] \<Longrightarrow> py_max id xs = Max (set xs)"
  by (cases xs) (simp_all add: py_max_def max_from_id_Max)

lemma fired_rules:
  "filter (rule_fires st) threshold_rules =
     (if 5 \<le> failed_checkouts st then [(None, 5, ''migration_misconfiguration'', 0.8)] else [])
   @ (if 3 \<le> count_of (error_types st) ''webhook_401''
      then [(Some ''webhook_401'', 3, ''webhook_auth_failure'', 0.7)] else [])
   @ (if 3 \<le> count_of (error_types st) ''frontend_state_mismatch''
      then [(Some ''frontend_state_mismatch'', 3, ''frontend_backend_mismatch'', 0.65)] else [])
   @ (if 10 \<le> count_of (error_types st) ''unknown''
      then [(Some ''unknown'', 10, ''platform_regression'', 0.6)] else [])"
  by (simp add: threshold_rules_def rule_fires_def rule_counter_def count_of_def get_or_def
      split: option.splits)

text \<open>
  Claim C3. Deterministic reasoning emits, in the order of the rule table, one hypothesis
  for each threshold rule that fires (\<open>failed_checkouts \<ge> 5\<close>: migration\_misconfiguration
  0.8; \<open>webhook_401 \<ge> 3\<close>: webhook\_auth\_failure 0.7; \<open>frontend_state_mismatch \<ge> 3\<close>:
  frontend\_backend\_mismatch 0.65; \<open>unknown \<ge> 10\<close>: platform\_regression 0.6), each
  count being the one stored for the error type (0 when none is stored), and the single
  hypothesis normal\_operation 0.9 when none fires; the list is never empty and the
  overall confidence is the greatest confidence in it.
\<close>

theorem reason_deterministic_hypotheses:
  "map cause_and_confidence (hypotheses (reason_deterministic obs)) =
     (if filter (rule_fires (o_stats obs)) threshold_rules = []
      then [(Some (JStr ''normal_operation''), Some 0.9)]
      else map rule_hypothesis (filter (rule_fires (o_stats obs)) threshold_rules))
   \<and> hypotheses (reason_deterministic obs) \<noteq> []
   \<and> r_confidence (reason_deterministic obs) =
       Max (conf_key ` set (hypotheses (reason_deterministic obs)))"
proof -
  have ne: "hypotheses (reason_deterministic obs) \<noteq> []"
    by (simp add: reason_deterministic_def Let_def)
  have "r_confidence (reason_deterministic obs) =
          py_max id (map conf_key (hypotheses (reason_deterministic obs)))"
    by (simp add: reason_deterministic_def Let_def)
  with ne have mx: "r_confidence (reason_deterministic obs) =
          Max (conf_key ` set (hypotheses (reason_deterministic obs)))"
    by (simp add: py_max_id_Max)
  have hs: "map cause_and_confidence (hypotheses (reason_deterministic obs)) =
     (if filter (rule_fires (o_stats obs)) threshold_rules = []
      then [(Some (JStr ''normal_operation''), Some 0.9)]
      else map rule_hypothesis (filter (rule_fires (o_stats obs)) threshold_rules))"
    unfolding fired_rules
    by (simp add: reason_deterministic_def Let_def cause_and_confidence_def
        rule_hypothesis_def mk_hypothesis_def)
  from hs ne mx show ?thesis by blast
qed

theorem reason_deterministic_hypotheses_witness:
  "map cause_and_confidence
     (hypotheses (reason_deterministic (observation_of 1 (zero_stats\<lparr>failed_checkouts := 5\<rparr>)))) =
     [(Some (JStr ''migration_misconfiguration''), Some 0.8)]
   \<and> map cause_and_confidence
     (hypotheses (reason_deterministic (observation_of 1 zero_stats))) =
     [(Some (JStr ''normal_operation''), Some 0.9)]
   \<and> r_confidence (reason_deterministic (observation_of 1 zero_stats)) = 0.9
   \<and> map cause_and_confidence
     (hypotheses (reason_deterministic (observation_of 1 mixed_stats))) =
     [(Some (JStr ''webhook_auth_failure''), Some 0.7),
      (Some (JStr ''platform_regression''), Some 0.6)]
   \<and> r_confidence (reason_deterministic (observation_of 1 mixed_stats)) = 0.7"
proof -
  have fired: "filter (rule_fires (zero_stats\<lparr>failed_checkouts := 5\<rparr>)) threshold_rules =
                 [(None, 5, ''migration_misconfiguration'', 0.8)]"
    by (simp add: threshold_rules_def rule_fires_def rule_counter_def zero_stats_def)
  have none: "filter (rule_fires zero_stats) threshold_rules = []"
    by (simp add: threshold_rules_def rule_fires_def rule_counter_def zero_stats_def)
  have two: "filter (rule_fires mixed_stats) threshold_rules =
               [(Some ''webhook_401'', 3, ''webhook_auth_failure'', 0.7),
                (Some ''unknown'', 10, ''platform_regression'', 0.6)]"
    by (simp add: threshold_rules_def rule_fires_def rule_counter_def mixed_stats_def)
  have quiet: "hypotheses (reason_deterministic (observation_of 1 zero_stats)) =
                 [mk_hypothesis ''normal_operation''
                    ''System signals are within expected parameters'' 0.9]"
    by (simp add: reason_deterministic_def observation_of_def zero_stats_def count_of_def
        get_or_def)
  have loud: "hypotheses (reason_deterministic (observation_of 1 mixed_stats)) =
                [mk_hypothesis ''webhook_auth_failure''
                   ''Repeated webhook authentication failures detected'' 0.7,
                 mk_hypothesis ''platform_regression''
                   ''High volume of unknown errors suggests a platform regression'' 0.6]"
    by (simp add: reason_deterministic_def observation_of_def mixed_stats_def count_of_def
        get_or_def)
  have st: "o_stats (observation_of c s) = s" for c s
    by (simp add: observation_of_def)
  from reason_deterministic_hypotheses
    [of "observation_of 1 (zero_stats\<lparr>failed_checkouts := 5\<rparr>)"]
  have "map cause_and_confidence
          (hypotheses (reason_deterministic
             (observation_of 1 (zero_stats\<lparr>failed_checkouts := 5\<rparr>)))) =
          [(Some (JStr ''migration_misconfiguration''), Some 0.8)]"
    by (simp add: fired st rule_hypothesis_def)
  moreover from reason_deterministic_hypotheses [of "observation_of 1 zero_stats"]
  have "map cause_and_confidence
          (hypotheses (reason_deterministic (observation_of 1 zero_stats))) =
          [(Some (JStr ''normal_operation''), Some 0.9)]"
    and "r_confidence (reason_deterministic (observation_of 1 zero_stats)) = 0.9"
    by (simp_all add: none st quiet mk_hypothesis_def conf_key_def)
  moreover from reason_deterministic_hypotheses [of "observation_of 1 mixed_stats"]
  have "map cause_and_confidence
          (hypotheses (reason_deterministic (observation_of 1 mixed_stats))) =
          [(Some (JStr ''webhook_auth_failure''), Some 0.7),
           (Some (JStr ''platform_regression''), Some 0.6)]"
    and "r_confidence (reason_deterministic (observation_of 1 mixed_stats)) = 0.7"
    by (simp_all add: two st rule_hypothesis_def loud mk_hypothesis_def conf_key_def)
  ultimately show ?thesis
    by blast
qed

text \<open>
  The Ollama client returns an object only when the transport answered, the status check
  and the decoding of the body did not raise, the body is a JSON object whose
  \<open>response\<close> is a non-blank string, and that string parses to a JSON object; in every
  other case it raises.
\<close>

lemma strip_Nil: "strip [] = []"
  by (simp add: strip_def)

lemma generate_returns_iff:
  "generate post loads model base_url prompt = Inr parsed \<longleftrightarrow>
     (\<exists>response raw text.
        post (base_url @ ''/api/generate'')
          [(''model'', JStr model), (''prompt'', JStr prompt),
           (''stream'', JBool False), (''format'', JStr ''json'')] = Inr response
        \<and> raise_for_status response = None
        \<and> response_json response = Inr (JObj raw)
        \<and> map_of raw ''response'' = Some (JStr text)
        \<and> strip text \<noteq> []
        \<and> loads (strip text) = Inr (JObj parsed))"
  by (auto simp: generate_def get_or_def Let_def strip_Nil
      split: sum.splits option.splits json.splits if_splits)

text \<open>
  When the standard output accepts the diagnostic lines, a failure of the delegate call,
  and likewise a failure after the delegate has answered, ends in the fallback reasoning.
\<close>

lemma reason_fallback_when_printed:
  assumes "use_llm_env env" and "should_use_llm obs"
    and "py_print lib (brain_sign @ '' LLM reasoning enabled'') = None"
    and "py_print lib (brain_sign @ '' ACTUALLY CALLING OLLAMA'') = None"
    and "llm_attempt lib g obs = Inl e"
    and "py_print lib (cross_mark @ '' LLM FAILURE: '' @ exn_text e) = None"
  shows "reason lib env (Some g) obs = Inr (llm_failed e)"
  using assms by (simp add: reason_def reason_with_llm_def)

lemma llm_attempt_delegate_raises:
  "g (build_prompt lib obs) = Inl e \<Longrightarrow> llm_attempt lib g obs = Inl e"
  by (simp add: llm_attempt_def)

text \<open>
  Claim C2. Whenever the delegate's \<open>generate\<close> call raises, \<open>reason\<close> is to return the
  \<open>llm_failed\<close> fallback and never to pass an exception to its caller. The code does not
  achieve this: its handler prints the exception before it returns, and that \<open>print\<close>
  is not guarded. The client puts the delegate's text into the exception it raises for
  invalid JSON; for the answer \<open>{"response": "\ud800"}\<close> the text holds a lone
  surrogate, the UTF-8 standard output refuses it, and \<open>reason\<close>, called on the
  observation of the checkout-failure scenario, ends with a \<open>UnicodeEncodeError\<close>
  instead of a reasoning.
\<close>

theorem reason_handler_print_raises:
  "generate surrogate_answer not_json ''phi3:mini'' ''http://localhost:11434''
     (build_prompt no_lib (fst (observe 0 1 scenario_checkout_failure))) =
     Inl (Raised ''ValueError'' (''LLM returned invalid JSON:'' @ newline @ surrogate_text))
   \<and> reason no_lib None
       (Some (generate surrogate_answer not_json ''phi3:mini'' ''http://localhost:11434''))
       (fst (observe 0 1 scenario_checkout_failure)) =
     Inl (Raised ''UnicodeEncodeError'' ''surrogates not allowed'')"
proof -
  define obs where "obs = fst (observe 0 1 scenario_checkout_failure)"
  have env: "use_llm_env None"
    by (simp add: use_llm_env_def get_or_def lower_char_def)
  have "length (anomalies (fst (observe 0 1 scenario_checkout_failure))) = 2"
    by code_simp
  then have amb: "should_use_llm obs"
    by (simp add: should_use_llm_def obs_def)
  have stripped: "strip surrogate_text = surrogate_text"
    by (simp add: strip_def surrogate_text_def is_space1_def is_space2_def is_space3_def)
  have raised: "generate surrogate_answer not_json ''phi3:mini'' ''http://localhost:11434''
                  (build_prompt no_lib obs) =
                  Inl (Raised ''ValueError''
                         (''LLM returned invalid JSON:'' @ newline @ surrogate_text))"
    by (simp add: generate_def surrogate_answer_def get_or_def stripped not_json_def)
      (simp add: surrogate_text_def)
  have p1: "py_print no_lib (brain_sign @ '' LLM reasoning enabled'') = None"
    by (simp add: py_print_def no_lib_def utf8_stdout_def brain_sign_def newline_def)
  have p2: "py_print no_lib (brain_sign @ '' ACTUALLY CALLING OLLAMA'') = None"
    by (simp add: py_print_def no_lib_def utf8_stdout_def brain_sign_def newline_def)
  have p3: "py_print no_lib
              (cross_mark @ '' LLM FAILURE: ''
               @ ''LLM returned invalid JSON:'' @ newline @ surrogate_text) =
              Some (Raised ''UnicodeEncodeError'' ''surrogates not allowed'')"
    by (simp add: py_print_def no_lib_def utf8_stdout_def cross_mark_def newline_def
        surrogate_text_def)
  have "reason no_lib None
          (Some (generate surrogate_answer not_json ''phi3:mini'' ''http://localhost:11434''))
          obs =
          Inl (Raised ''UnicodeEncodeError'' ''surrogates not allowed'')"
    using env amb p1 p2 p3
    by (simp add: reason_def reason_with_llm_def llm_attempt_def raised)
  with raised show ?thesis
    unfolding obs_def by blast
qed

section \<open>Properties of the Actor\<close>

lemma act_step_cases:
  "act_step (taken, pending) d =
     (if requires_human_approval d then (taken, pending @ [d])
      else (taken @ List.map_filter execute [d], pending))"
  by (cases "execute d") (simp_all add: act_step_def)

lemma act_loop:
  "foldl act_step (taken, pending) ds =
     (taken @ List.map_filter execute (filter (\<lambda>d. \<not> requires_human_approval d) ds),
      pending @ filter requires_human_approval ds)"
proof (induction ds arbitrary: taken pending)
  case Nil
  show ?case by simp
next
  case (Cons d ds)
  have "foldl act_step (taken, pending) (d # ds) =
          foldl act_step (act_step (taken, pending) d) ds"
    by simp
  also have "\<dots> =
     (taken @ List.map_filter execute (filter (\<lambda>d. \<not> requires_human_approval d) (d # ds)),
      pending @ filter requires_human_approval (d # ds))"
  proof (cases "requires_human_approval d")
    case True
    then show ?thesis
      by (simp add: act_step_cases Cons.IH)
  next
    case False
    have "List.map_filter execute (d # filter (\<lambda>d. \<not> requires_human_approval d) ds) =
            List.map_filter execute [d]
            @ List.map_filter execute (filter (\<lambda>d. \<not> requires_human_approval d) ds)"
      by (cases "execute d") simp_all
    with False show ?thesis
      by (simp add: act_step_cases Cons.IH del: List.map_filter_simps)
  qed
  finally show ?case .
qed

lemma execute_kind: "map_option action_name (execute d) = spec_action_kind (d_type d)"
  by (simp add: execute_def spec_action_kind_def act_monitor_def act_support_guidance_def
      act_escalate_engineering_def)

lemma map_filter_kind:
  "map action_name (List.map_filter execute ds) =
     List.map_filter (\<lambda>d. spec_action_kind (d_type d)) ds"
proof (induction ds)
  case Nil
  show ?case by simp
next
  case (Cons d ds)
  from execute_kind [of d, symmetric] Cons show ?case
    by (cases "execute d") simp_all
qed

text \<open>
  Claim C7. \<open>act\<close> splits the decisions in two: the decisions that require human
  approval go, unchanged and in order, to \<open>pending_approvals\<close> and produce no action;
  among the others, each \<open>monitor_only\<close>, \<open>support_guidance\<close> or
  \<open>escalate_engineering\<close> decision produces exactly one action of the corresponding
  kind in \<open>actions_taken\<close>, and a decision of any other variant produces nothing.
  \<open>act\<close> is a total function: no variant makes it fail.
\<close>

theorem act_partitions_decisions:
  "pending_approvals (fst (act now file dout)) =
     filter requires_human_approval (decisions dout)
   \<and> map action_name (actions_taken (fst (act now file dout))) =
       List.map_filter (\<lambda>d. spec_action_kind (d_type d))
         (filter (\<lambda>d. \<not> requires_human_approval d) (decisions dout))
   \<and> length (actions_taken (fst (act now file dout))) =
       length (filter (\<lambda>d. \<not> requires_human_approval d
                          \<and> d_type d \<in> {''monitor_only'', ''support_guidance'',
                                         ''escalate_engineering''}) (decisions dout))"
proof -
  have run: "act now file dout =
     (let update = \<lparr>su_timestamp = now,
                     su_observation_id = do_observation_id dout,
                     actions_taken = List.map_filter execute
                        (filter (\<lambda>d. \<not> requires_human_approval d) (decisions dout)),
                     pending_approvals = filter requires_human_approval (decisions dout),
                     su_risk_level = risk_level dout\<rparr>
      in (update, write_state file update))"
    by (simp add: act_def act_loop)
  have len: "length (List.map_filter execute ds) =
               length (filter (\<lambda>d. d_type d \<in> {''monitor_only'', ''support_guidance'',
                                         ''escalate_engineering''}) ds)" for ds
    by (induction ds) (auto simp: execute_def)
  show ?thesis
    unfolding run by (simp add: Let_def map_filter_kind len)
qed

theorem act_partitions_decisions_witness:
  "pending_approvals (fst (act 1 Absent mixed_decisions)) =
     [documentation_update ''Frontend and backend state mismatch observed'']
   \<and> map action_name (actions_taken (fst (act 1 Absent mixed_decisions))) =
       [''monitoring'', ''engineering_escalation_created'']"
  using act_partitions_decisions [of 1 Absent mixed_decisions]
  by (simp add: mixed_decisions_def documentation_update_def monitor_only_def
      escalate_engineering_def spec_action_kind_def)

section \<open>Properties of the Memory\<close>


lemma lookup_fresh_append:
  "iid \<notin> incident_id ` set memory \<Longrightarrow> incident_id inc = iid
     \<Longrightarrow> lookup_incident iid (memory @ [inc]) = Some inc"
  by (induction memory) (auto simp: lookup_incident_def)

lemma lookup_attach:
  "lookup_incident iid (attach_outcome iid s memory) =
     map_option (\<lambda>e. e\<lparr>outcome := Some s\<rparr>) (lookup_incident iid memory)"
  by (induction memory) (auto simp: lookup_incident_def)

lemma attach_keeps_ids:
  "map incident_id (attach_outcome iid s memory) = map incident_id memory"
  by (induction memory) auto

lemma stamped_other_key:
  "k \<notin> fst ` set kvs \<Longrightarrow>
     map_of (foldl (\<lambda>d kv. AList.update (fst kv) (snd kv) d) d kvs) k = map_of d k"
  by (induction kvs arbitrary: d) (auto simp: update_conv')

lemma stamped_timestamp:
  "''timestamp'' \<notin> fst ` set outc \<Longrightarrow> map_of (stamped now outc) ''timestamp'' = Some (JNum now)"
  by (simp add: stamped_def stamped_other_key)

text \<open>
  Claim C8, as stated: after \<open>record_incident\<close> a lookup of the returned id shows a null
  outcome, one \<open>update_outcome\<close> makes the outcome non-null, and a second
  \<open>update_outcome\<close> on the same id leaves the attachment time of the first untouched.
  The last part fails: starting from the empty store, an outcome attached at time 2 and
  attached again at time 3 carries the attachment time 3.
\<close>

theorem update_outcome_second_call_counterexample:
  "attachment_time ''a''
     (update_outcome 2 ''a'' [(''resolved'', JBool True)]
        (snd (record_incident ''a'' 1 (observation_of 0.9 zero_stats) tied_reasoning
                mixed_decisions (fst (act 1 Absent mixed_decisions)) []))) = Some (JNum 2)
   \<and> attachment_time ''a''
     (update_outcome 3 ''a'' [(''resolved'', JBool True)]
        (update_outcome 2 ''a'' [(''resolved'', JBool True)]
           (snd (record_incident ''a'' 1 (observation_of 0.9 zero_stats) tied_reasoning
                   mixed_decisions (fst (act 1 Absent mixed_decisions)) [])))) = Some (JNum 3)"
  by (simp add: record_incident_def update_outcome_def stamped_def attachment_time_def
      lookup_incident_def)

text \<open>
  Claim C8, amended. For every store and every fresh id (one that no stored incident
  carries, as a \<open>uuid4\<close> is taken to be), \<open>record_incident\<close> returns the id and a lookup of
  it shows a null outcome; after one \<open>update_outcome\<close> the stored outcome is non-null (the
  given outcome with its attachment time); a second \<open>update_outcome\<close> on the same id
  overwrites the stored outcome, and the attachment time becomes the time of the second
  call when the new outcome has no \<open>timestamp\<close> key of its own.
\<close>

theorem update_outcome_overwrites:
  assumes "uuid \<notin> incident_id ` set memory"
    and "m1 = snd (record_incident uuid t0 obs r dec a memory)"
    and "m2 = update_outcome t1 uuid o1 m1"
    and "m3 = update_outcome t2 uuid o2 m2"
  shows "fst (record_incident uuid t0 obs r dec a memory) = uuid
       \<and> map_option outcome (lookup_incident uuid m1) = Some None
       \<and> map_option outcome (lookup_incident uuid m2) = Some (Some (stamped t1 o1))
       \<and> map_option outcome (lookup_incident uuid m3) = Some (Some (stamped t2 o2))
       \<and> (''timestamp'' \<notin> fst ` set o2 \<longrightarrow> attachment_time uuid m3 = Some (JNum t2))"
proof -
  define inc where
    "inc = \<lparr>incident_id = uuid, i_timestamp = t0, i_observation = obs, i_reasoning = r,
            i_decision = dec, i_action = a, outcome = None\<rparr>"
  have m1: "m1 = memory @ [inc]" and ret: "fst (record_incident uuid t0 obs r dec a memory) = uuid"
    using assms(2) by (simp_all add: record_incident_def inc_def)
  have l1: "lookup_incident uuid m1 = Some inc"
    unfolding m1 using assms(1) by (rule lookup_fresh_append) (simp add: inc_def)
  have l2: "lookup_incident uuid m2 = Some (inc\<lparr>outcome := Some (stamped t1 o1)\<rparr>)"
    unfolding assms(3) update_outcome_def lookup_attach l1 by simp
  have l3: "lookup_incident uuid m3 = Some (inc\<lparr>outcome := Some (stamped t2 o2)\<rparr>)"
    unfolding assms(4) update_outcome_def lookup_attach l2 by simp
  have "attachment_time uuid m3 = Some (JNum t2)" if "''timestamp'' \<notin> fst ` set o2"
    using that by (simp add: attachment_time_def l3 stamped_timestamp)
  with ret l1 l2 l3 show ?thesis
    by (simp add: inc_def)
qed

theorem update_outcome_overwrites_witness:
  "''a'' \<notin> incident_id ` set [sample_incident ''b'']
   \<and> ''timestamp'' \<notin> fst ` set [(''resolved'', JBool True)]
   \<and> attachment_time ''a''
       (update_outcome 3 ''a'' [(''resolved'', JBool True)]
          (update_outcome 2 ''a'' []
             (snd (record_incident ''a'' 1 (observation_of 0.9 zero_stats) tied_reasoning
                     mixed_decisions (fst (act 1 Absent mixed_decisions))
                     [sample_incident ''b''])))) = Some (JNum 3)"
proof -
  have fresh: "''a'' \<notin> incident_id ` set [sample_incident ''b'']"
    by (simp add: sample_incident_def)
  have key: "''timestamp'' \<notin> fst ` set [(''resolved'', JBool True)]"
    by simp
  from update_outcome_overwrites
    [of "''a''" "[sample_incident ''b'']" _ 1 "observation_of 0.9 zero_stats"
        tied_reasoning mixed_decisions "fst (act 1 Absent mixed_decisions)"
        _ 2 "[]" _ 3 "[(''resolved'', JBool True)]",
     OF fresh refl refl refl]
    fresh key
  show ?thesis
    by blast
qed






end
